theory Spec2Isabelle
  imports Main
begin

section \<open>Data model\<close>

text \<open>
  The embedding follows \<^verbatim>\<open>main.js\<close>. The two supervised child processes are told
  apart by their role; a process handle (the \<^verbatim>\<open>ChildProcess\<close> object that
  \<^verbatim>\<open>spawn\<close> returns) is identified with the role of the process it stands for.
\<close>

datatype role = Database | Application

text \<open>
  Every value the code throws or rejects with. \<^verbatim>\<open>NoFreePort s\<close> is the
  \<^verbatim>\<open>Error\<close> thrown at the end of \<^verbatim>\<open>findFreePort\<close> (its message carries the start
  port), \<^verbatim>\<open>BadPort p\<close> is the \<^verbatim>\<open>RangeError\<close> that \<^verbatim>\<open>listen(p)\<close> throws for a number
  that is not a port, \<^verbatim>\<open>SpawnError\<close> is the object delivered by a child's \<^verbatim>\<open>'error'\<close>
  event, \<^verbatim>\<open>InitdbExited\<close> is the \<^verbatim>\<open>Error\<close> built in the \<^verbatim>\<open>'close'\<close> handler of
  initdb, \<^verbatim>\<open>MkdirError\<close> is an exception of \<^verbatim>\<open>fs.mkdirSync\<close> in \<^verbatim>\<open>initDbIfNeeded\<close>,
  \<^verbatim>\<open>ExecutorError\<close> is an exception thrown inside a promise executor (by
  \<^verbatim>\<open>createLogStream\<close> or by \<^verbatim>\<open>spawn\<close> itself, for instance), and \<^verbatim>\<open>InstallError\<close> is the \<^verbatim>\<open>err\<close>
  argument of the \<^verbatim>\<open>execFile\<close> callback.
\<close>

datatype error =
    NoFreePort nat
  | BadPort nat
  | SpawnError string
  | InitdbExited "int option"
  | MkdirError
  | ExecutorError string
  | InstallError string

text \<open>
  A JavaScript promise: pending, or settled once and for all. Calling \<^verbatim>\<open>resolve\<close> or
  \<^verbatim>\<open>reject\<close> on a settled promise has no effect.
\<close>

datatype 'a promise = Pending | Resolved 'a | Rejected error

definition resolve :: "'a promise \<Rightarrow> 'a \<Rightarrow> 'a promise" where
  "resolve p v = (case p of Pending \<Rightarrow> Resolved v | _ \<Rightarrow> p)"

definition reject :: "'a promise \<Rightarrow> error \<Rightarrow> 'a promise" where
  "reject p e = (case p of Pending \<Rightarrow> Rejected e | _ \<Rightarrow> p)"

text \<open>
  What \<^verbatim>\<open>await p\<close> gives its caller: the value, the exception, or nothing at all when
  the promise is never settled.
\<close>

datatype 'a outcome = Returned 'a | Threw error | Hang

definition await :: "'a promise \<Rightarrow> 'a outcome" where
  "await p = (case p of Pending \<Rightarrow> Hang | Resolved v \<Rightarrow> Returned v | Rejected e \<Rightarrow> Threw e)"

text \<open>
  The events a child process delivers to the handlers registered on it: a chunk of
  standard output, a chunk of standard error, the \<^verbatim>\<open>'error'\<close> event with its error
  object, and the \<^verbatim>\<open>'close'\<close> event with the exit code (\<^verbatim>\<open>null\<close>, here \<open>None\<close>,
  when the process was ended by a signal).
\<close>

datatype proc_event =
    StdoutData string
  | StderrData string
  | ErrorEvent string
  | CloseEvent "int option"

section \<open>Port allocator\<close>

text \<open>
  \<^verbatim>\<open>findFreePort(startPort = 54321, maxAttempts = 20)\<close>. For a candidate that is not
  a port number (65536 or more), \<^verbatim>\<open>listen(port)\<close> throws a \<^verbatim>\<open>RangeError\<close> inside the
  promise executor before anything is bound; the promise is rejected with it, the
  \<^verbatim>\<open>await\<close> rethrows it and \<^verbatim>\<open>findFreePort\<close> fails with it. For a port number, the
  probe (binding a transient server on it and waiting for \<^verbatim>\<open>'listening'\<close> or
  \<^verbatim>\<open>'error'\<close>) is the environment's answer \<open>isFree port\<close>. The last argument records
  the candidates probed so far (those a bind was attempted on), in order; the source
  keeps no such list, it is there so that the probes can be counted.
\<close>

function findFreePort_loop ::
  "(nat \<Rightarrow> bool) \<Rightarrow> nat \<Rightarrow> nat \<Rightarrow> nat \<Rightarrow> nat \<Rightarrow> nat list \<Rightarrow> (error + nat) \<times> nat list" where
  "findFreePort_loop isFree startPort maxAttempts i port probed =
     (if i < maxAttempts then
        (if 65536 \<le> port then (Inl (BadPort port), probed)
         else if isFree port then (Inr port, probed @ [port])
         else findFreePort_loop isFree startPort maxAttempts (Suc i) (Suc port) (probed @ [port]))
      else (Inl (NoFreePort startPort), probed))"
  by pat_completeness auto
termination
  by (relation "measure (\<lambda>(isFree, startPort, maxAttempts, i, port, probed). maxAttempts - i)") auto

definition findFreePort :: "(nat \<Rightarrow> bool) \<Rightarrow> nat \<Rightarrow> nat \<Rightarrow> (error + nat) \<times> nat list" where
  "findFreePort isFree startPort maxAttempts =
     findFreePort_loop isFree startPort maxAttempts 0 startPort []"

section \<open>Storage initializer\<close>

text \<open>
  The part of the file system the code looks at: whether \<^verbatim>\<open>DATA_DIR\<close> exists, whether
  \<^verbatim>\<open>postmaster.pid\<close> exists in it, and whether \<^verbatim>\<open>initialized.txt\<close> exists in it (each
  field is the answer of the corresponding \<^verbatim>\<open>fs.existsSync\<close>).
\<close>

record storage =
  dataDir :: bool
  pidFile :: bool
  initMarker :: bool

text \<open>
  What the environment does during one run of \<^verbatim>\<open>initDbIfNeeded\<close>: whether
  \<^verbatim>\<open>fs.mkdirSync\<close>, \<^verbatim>\<open>fs.unlinkSync\<close> and \<^verbatim>\<open>fs.writeFileSync\<close> succeed (each of
  them throws otherwise), whether \<^verbatim>\<open>spawn\<close> of initdb throws an exception instead of
  returning a process (\<open>Some\<close> of its message), and the events the spawned initdb
  process delivers, in order.
\<close>

record init_env =
  mkdir_ok :: bool
  unlink_ok :: bool
  write_ok :: bool
  initdb_spawn_throws :: "string option"
  initdb_events :: "proc_event list"

definition cleanLeftoverLockFile :: "bool \<Rightarrow> storage \<Rightarrow> storage" where
  "cleanLeftoverLockFile unlink_succeeds fs =
     (if pidFile fs then
        (if unlink_succeeds then fs\<lparr>pidFile := False\<rparr> else fs)
      else fs)"

text \<open>
  The handlers registered on the initdb process inside the promise executor, acting
  on the file system and on the promise being built: \<^verbatim>\<open>'error'\<close> rejects, the data
  handlers only log, \<^verbatim>\<open>'close'\<close> writes the marker and then resolves on code \<open>0\<close> and
  rejects otherwise. The first argument says whether \<^verbatim>\<open>fs.writeFileSync\<close> succeeds:
  when it throws, the exception leaves the handler before \<^verbatim>\<open>resolve()\<close>, so the marker
  is not written and the promise is not settled by this event.
\<close>

fun initdb_on_event ::
  "bool \<Rightarrow> proc_event \<Rightarrow> storage \<times> unit promise \<Rightarrow> storage \<times> unit promise" where
  "initdb_on_event w (ErrorEvent err) (fs, p) = (fs, reject p (SpawnError err))"
| "initdb_on_event w (StdoutData d) (fs, p) = (fs, p)"
| "initdb_on_event w (StderrData d) (fs, p) = (fs, p)"
| "initdb_on_event w (CloseEvent code) (fs, p) =
     (if code = Some 0 then
        (if w then (fs\<lparr>initMarker := True\<rparr>, resolve p ()) else (fs, p))
      else (fs, reject p (InitdbExited code)))"

fun initdb_run ::
  "bool \<Rightarrow> proc_event list \<Rightarrow> storage \<times> unit promise \<Rightarrow> storage \<times> unit promise" where
  "initdb_run w [] s = s"
| "initdb_run w (ev # evs) s = initdb_run w evs (initdb_on_event w ev s)"

text \<open>
  \<^verbatim>\<open>initDbIfNeeded()\<close>. The result is the file system afterwards, the number of times
  \<^verbatim>\<open>spawn\<close> was called on the bootstrap command (initdb), and what the caller's
  \<^verbatim>\<open>await\<close> gets. An exception of \<^verbatim>\<open>spawn\<close> inside the executor rejects the promise.
\<close>

definition initDbIfNeeded :: "init_env \<Rightarrow> storage \<Rightarrow> storage \<times> nat \<times> unit outcome" where
  "initDbIfNeeded env fs =
     (if \<not> dataDir fs \<and> \<not> mkdir_ok env then (fs, 0, Threw MkdirError)
      else
        (let fs1 = cleanLeftoverLockFile (unlink_ok env) (fs\<lparr>dataDir := True\<rparr>) in
         if \<not> initMarker fs1 then
           (case initdb_spawn_throws env of
              Some msg \<Rightarrow> (fs1, 1, Threw (ExecutorError msg))
            | None \<Rightarrow>
                (case initdb_run (write_ok env) (initdb_events env) (fs1, Pending) of
                   (fs2, p) \<Rightarrow> (fs2, 1, await p)))
         else (fs1, 0, Returned ())))"

text \<open>
  Two notions used to state what a run of the bootstrap command amounts to. An event
  is settling when its handler calls \<^verbatim>\<open>resolve\<close> or \<^verbatim>\<open>reject\<close> (the \<^verbatim>\<open>'error'\<close> and
  \<^verbatim>\<open>'close'\<close> events). An initialization failure is what \<^verbatim>\<open>initDbIfNeeded\<close> throws when
  the bootstrap did not succeed: the exception of \<^verbatim>\<open>spawn\<close>, the spawn error of the
  \<^verbatim>\<open>'error'\<close> event, or the error built from a nonzero (or \<^verbatim>\<open>null\<close>) exit code.
\<close>

definition settling :: "proc_event \<Rightarrow> bool" where
  "settling ev = (case ev of ErrorEvent e \<Rightarrow> True | CloseEvent c \<Rightarrow> True | _ \<Rightarrow> False)"

definition init_failure :: "unit outcome \<Rightarrow> bool" where
  "init_failure out =
     (case out of
        Threw (SpawnError e) \<Rightarrow> True
      | Threw (ExecutorError m) \<Rightarrow> True
      | Threw (InitdbExited c) \<Rightarrow> c \<noteq> Some 0
      | _ \<Rightarrow> False)"

section \<open>Readiness patterns\<close>

text \<open>
  \<^verbatim>\<open>line.includes(pat)\<close>: the pattern occurs somewhere in the text.
\<close>

fun starts_with :: "string \<Rightarrow> string \<Rightarrow> bool" where
  "starts_with s [] = True"
| "starts_with [] (p # ps) = False"
| "starts_with (c # cs) (p # ps) = (c = p \<and> starts_with cs ps)"

fun str_includes :: "string \<Rightarrow> string \<Rightarrow> bool" where
  "str_includes [] pat = (pat = [])"
| "str_includes (c # cs) pat = (starts_with (c # cs) pat \<or> str_includes cs pat)"

definition pg_ready_marker :: string where
  "pg_ready_marker = ''database system is ready to accept connections''"

text \<open>
  \<^verbatim>\<open>line.match(/<literal>(\d+)/)\<close> for a literal prefix: the leftmost position where
  the literal is followed by at least one decimal digit; the captured group is the
  longest run of digits there. \<open>None\<close> is the \<^verbatim>\<open>null\<close> of a failed match.
\<close>

definition is_digit :: "char \<Rightarrow> bool" where
  "is_digit c = (c \<in> set ''0123456789'')"

definition match_here :: "string \<Rightarrow> string \<Rightarrow> string option" where
  "match_here lit s =
     (if starts_with s lit then
        (let ds = takeWhile is_digit (drop (length lit) s) in
         if ds = [] then None else Some ds)
      else None)"

fun match_port :: "string \<Rightarrow> string \<Rightarrow> string option" where
  "match_port lit [] = match_here lit []"
| "match_port lit (c # cs) =
     (case match_here lit (c # cs) of
        Some ds \<Rightarrow> Some ds
      | None \<Rightarrow> match_port lit cs)"

definition lm_pattern1 :: string where
  "lm_pattern1 = ''http server started on 127.0.0.1:''"

definition lm_pattern2 :: string where
  "lm_pattern2 = ''Web server listening on http://127.0.0.1:''"

text \<open>
  The two attempts of the stdout handler of listmonk, in the source's order: the
  second pattern is tried only when the first one does not match the chunk.
\<close>

definition lm_match :: "string \<Rightarrow> string option" where
  "lm_match line =
     (case match_port lm_pattern1 line of
        Some ds \<Rightarrow> Some ds
      | None \<Rightarrow> match_port lm_pattern2 line)"

section \<open>Application state\<close>

text \<open>
  The point at which the asynchronous \<^verbatim>\<open>app.whenReady\<close> handler is suspended: the
  \<^verbatim>\<open>await\<close> it is waiting in (with the database port it holds by then), or that it
  has finished (\<open>Ready\<close>, after \<^verbatim>\<open>createWindow\<close>) or left through its \<^verbatim>\<open>catch\<close>
  (\<open>Failed\<close>).
\<close>

datatype stage =
    Idle
  | InitializingStorage
  | AwaitingDatabaseReady nat
  | RunningMigrations nat
  | AwaitingApplicationReady
  | Ready
  | Failed

text \<open>
  The message of a \<^verbatim>\<open>dialog.showErrorBox(title, message)\<close>: a fixed text, or
  \<^verbatim>\<open>err.toString()\<close> of a caught error.
\<close>

datatype message = Text string | ErrToString error

text \<open>
  The variables of the asynchronous wrapper (\<^verbatim>\<open>pgProcess\<close>, \<^verbatim>\<open>listmonkProcess\<close>,
  \<^verbatim>\<open>isQuitting\<close>, \<^verbatim>\<open>mainWindow\<close>: the URL the window loaded), the error boxes shown
  so far, the promises returned by \<^verbatim>\<open>startPostgres\<close> and \<^verbatim>\<open>startListmonk\<close>, the
  variable \<^verbatim>\<open>ephemeralPort\<close> of \<^verbatim>\<open>startListmonk\<close>'s closure, the progress of the
  startup handler, and the file system.
\<close>

record app_state =
  pgProcess :: "role option"
  listmonkProcess :: "role option"
  isQuitting :: bool
  mainWindow :: "string option"
  errorBoxes :: "(string \<times> message) list"
  pgReady :: "unit promise"
  lmReady :: "string option promise"
  ephemeralPort :: "string option"
  stage :: stage
  disk :: storage

definition initial_state :: "storage \<Rightarrow> app_state" where
  "initial_state d =
     \<lparr>pgProcess = None, listmonkProcess = None, isQuitting = False, mainWindow = None,
      errorBoxes = [], pgReady = Pending, lmReady = Pending, ephemeralPort = None,
      stage = Idle, disk = d\<rparr>"

definition showErrorBox :: "string \<Rightarrow> message \<Rightarrow> app_state \<Rightarrow> app_state" where
  "showErrorBox title msg st = st\<lparr>errorBoxes := errorBoxes st @ [(title, msg)]\<rparr>"

section \<open>Supervising the database process\<close>

text \<open>
  The promise executor of \<^verbatim>\<open>startPostgres(port)\<close>: it creates the log stream, spawns
  the process, registers the handlers below and, as its last statement, assigns
  \<^verbatim>\<open>pgProcess = proc\<close>, all before any event of the process is delivered. The first
  argument is the environment's answer: \<open>Some\<close> of a message when an exception is
  thrown inside the executor, at any statement before the last (by \<^verbatim>\<open>fs.mkdirSync\<close> in
  \<^verbatim>\<open>createLogStream\<close>, or by \<^verbatim>\<open>spawn\<close> itself, for instance). The promise is then
  rejected with that exception and the assignment is never reached.
\<close>

definition startPostgres :: "string option \<Rightarrow> nat \<Rightarrow> app_state \<Rightarrow> app_state" where
  "startPostgres thrown port st =
     (case thrown of
        Some msg \<Rightarrow> st\<lparr>pgReady := Rejected (ExecutorError msg)\<rparr>
      | None \<Rightarrow> st\<lparr>pgReady := Pending, pgProcess := Some Database\<rparr>)"

definition checkLine :: "string \<Rightarrow> app_state \<Rightarrow> app_state" where
  "checkLine line st =
     (if str_includes line pg_ready_marker then st\<lparr>pgReady := resolve (pgReady st) ()\<rparr>
      else st)"

definition pg_on_close :: "int option \<Rightarrow> app_state \<Rightarrow> app_state" where
  "pg_on_close code st =
     (if \<not> isQuitting st \<and> code \<noteq> Some 0 then
        showErrorBox ''Postgres Error'' (Text ''Postgres crashed unexpectedly.'') st
      else st)"

fun pg_event :: "proc_event \<Rightarrow> app_state \<Rightarrow> app_state" where
  "pg_event (ErrorEvent err) st = st\<lparr>pgReady := reject (pgReady st) (SpawnError err)\<rparr>"
| "pg_event (StdoutData txt) st = checkLine txt st"
| "pg_event (StderrData txt) st = checkLine txt st"
| "pg_event (CloseEvent code) st = pg_on_close code st"

fun pg_run :: "proc_event list \<Rightarrow> app_state \<Rightarrow> app_state" where
  "pg_run [] st = st"
| "pg_run (ev # evs) st = pg_run evs (pg_event ev st)"

section \<open>Supervising the application process\<close>

text \<open>
  The promise executor of \<^verbatim>\<open>startListmonk(pgPort)\<close>: the log stream, the spawn,
  \<^verbatim>\<open>listmonkProcess = proc\<close> right after it, \<^verbatim>\<open>let ephemeralPort = null\<close>, and the
  handlers below. The first argument is the environment's answer, as for
  \<^verbatim>\<open>startPostgres\<close>: an exception of \<^verbatim>\<open>createLogStream\<close> or of \<^verbatim>\<open>spawn\<close> rejects the
  promise before the handle is assigned.
\<close>

definition startListmonk :: "string option \<Rightarrow> nat \<Rightarrow> app_state \<Rightarrow> app_state" where
  "startListmonk thrown pgPort st =
     (case thrown of
        Some msg \<Rightarrow> st\<lparr>lmReady := Rejected (ExecutorError msg)\<rparr>
      | None \<Rightarrow>
          st\<lparr>lmReady := Pending, listmonkProcess := Some Application, ephemeralPort := None\<rparr>)"

definition lm_on_stdout :: "string \<Rightarrow> app_state \<Rightarrow> app_state" where
  "lm_on_stdout line st =
     (case lm_match line of
        None \<Rightarrow> st
      | Some ds \<Rightarrow> st\<lparr>ephemeralPort := Some ds, lmReady := resolve (lmReady st) (Some ds)\<rparr>)"

definition lm_on_close :: "int option \<Rightarrow> app_state \<Rightarrow> app_state" where
  "lm_on_close code st =
     (if \<not> isQuitting st \<and> code \<noteq> Some 0 then
        showErrorBox ''Listmonk Stopped'' (Text ''Listmonk crashed unexpectedly.'') st
      else st)"

fun lm_event :: "proc_event \<Rightarrow> app_state \<Rightarrow> app_state" where
  "lm_event (ErrorEvent err) st = st\<lparr>lmReady := reject (lmReady st) (SpawnError err)\<rparr>"
| "lm_event (StdoutData line) st = lm_on_stdout line st"
| "lm_event (StderrData txt) st = st"
| "lm_event (CloseEvent code) st = lm_on_close code st"

fun lm_run :: "proc_event list \<Rightarrow> app_state \<Rightarrow> app_state" where
  "lm_run [] st = st"
| "lm_run (ev # evs) st = lm_run evs (lm_event ev st)"

section \<open>Describing event streams\<close>




definition as_stdout :: "proc_event \<Rightarrow> proc_event" where
  "as_stdout ev = (case ev of StderrData txt \<Rightarrow> StdoutData txt | _ \<Rightarrow> ev)"

definition not_stderr :: "proc_event \<Rightarrow> bool" where
  "not_stderr ev = (case ev of StderrData txt \<Rightarrow> False | _ \<Rightarrow> True)"



section \<open>Startup pipeline\<close>

text \<open>
  \<^verbatim>\<open>x || '9000'\<close> for a value that is \<^verbatim>\<open>null\<close> or a string: \<^verbatim>\<open>null\<close> and the empty
  string are falsy.
\<close>

definition or_9000 :: "string option \<Rightarrow> string" where
  "or_9000 x = (case x of None \<Rightarrow> ''9000'' | Some s \<Rightarrow> (if s = [] then ''9000'' else s))"

definition createWindow :: "string option \<Rightarrow> app_state \<Rightarrow> app_state" where
  "createWindow port st = st\<lparr>mainWindow := Some (''http://127.0.0.1:'' @ or_9000 port)\<rparr>"

text \<open>
  The \<^verbatim>\<open>'before-quit'\<close> handler, and \<^verbatim>\<open>app.quit()\<close>, which emits \<^verbatim>\<open>'before-quit'\<close>
  at once (\<^verbatim>\<open>'will-quit'\<close> follows once the windows are closed).
\<close>

definition before_quit :: "app_state \<Rightarrow> app_state" where
  "before_quit st = st\<lparr>isQuitting := True\<rparr>"

definition app_quit :: "app_state \<Rightarrow> app_state" where
  "app_quit st = before_quit st"

text \<open>The \<^verbatim>\<open>catch\<close> block of the startup handler.\<close>

definition startup_failed :: "error \<Rightarrow> app_state \<Rightarrow> app_state" where
  "startup_failed err st =
     app_quit (showErrorBox ''Startup Error'' (ErrToString err) (st\<lparr>stage := Failed\<rparr>))"

text \<open>
  What the environment supplies to the startup handler: the run of the storage
  initializer, the answers of the port probes, and whether an exception is thrown
  inside the executor of \<^verbatim>\<open>startPostgres\<close> and of \<^verbatim>\<open>startListmonk\<close>.
\<close>

record env =
  init :: init_env
  portIsFree :: "nat \<Rightarrow> bool"
  pg_start_throws :: "string option"
  lm_start_throws :: "string option"

text \<open>
  The startup handler at \<^verbatim>\<open>await startPostgres(pgPort)\<close>, taken up after the executor
  and after every event of the database process: while the promise is pending it
  stays suspended; on resolution it calls \<^verbatim>\<open>installListmonk(pgPort)\<close> and waits for its
  callback (step D); on rejection it enters the \<^verbatim>\<open>catch\<close> block.
\<close>

definition resume_after_pg :: "app_state \<Rightarrow> app_state" where
  "resume_after_pg st =
     (case stage st of
        AwaitingDatabaseReady pgPort \<Rightarrow>
          (case pgReady st of
             Pending \<Rightarrow> st
           | Resolved u \<Rightarrow> st\<lparr>stage := RunningMigrations pgPort\<rparr>
           | Rejected err \<Rightarrow> startup_failed err st)
      | _ \<Rightarrow> st)"

text \<open>
  The startup handler from its beginning to \<^verbatim>\<open>await startPostgres(pgPort)\<close> (steps A
  to C).
\<close>

definition whenReady :: "env \<Rightarrow> app_state \<Rightarrow> app_state" where
  "whenReady e st =
     (case initDbIfNeeded (init e) (disk st) of
        (fs', n, Threw err) \<Rightarrow> startup_failed err (st\<lparr>disk := fs'\<rparr>)
      | (fs', n, Hang) \<Rightarrow> st\<lparr>disk := fs', stage := InitializingStorage\<rparr>
      | (fs', n, Returned u) \<Rightarrow>
          (case fst (findFreePort (portIsFree e) 54321 20) of
             Inl err \<Rightarrow> startup_failed err (st\<lparr>disk := fs'\<rparr>)
           | Inr pgPort \<Rightarrow>
               resume_after_pg
                 ((startPostgres (pg_start_throws e) pgPort (st\<lparr>disk := fs'\<rparr>))
                    \<lparr>stage := AwaitingDatabaseReady pgPort\<rparr>)))"

text \<open>
  The startup handler at \<^verbatim>\<open>await startListmonk(pgPort)\<close>, taken up after the executor
  and after every event of the application process: on resolution with
  \<^verbatim>\<open>{ ephemeralPort }\<close> it computes \<^verbatim>\<open>finalPort = ephemeralPort || '9000'\<close> and calls
  \<^verbatim>\<open>createWindow(finalPort)\<close> (step F); on rejection it enters the \<^verbatim>\<open>catch\<close> block.
\<close>

definition resume_after_lm :: "app_state \<Rightarrow> app_state" where
  "resume_after_lm st =
     (case stage st of
        AwaitingApplicationReady \<Rightarrow>
          (case lmReady st of
             Pending \<Rightarrow> st
           | Resolved port \<Rightarrow> (createWindow (Some (or_9000 port)) st)\<lparr>stage := Ready\<rparr>
           | Rejected err \<Rightarrow> startup_failed err st)
      | _ \<Rightarrow> st)"

text \<open>
  The callback of \<^verbatim>\<open>execFile\<close> in \<^verbatim>\<open>installListmonk\<close>, with its \<^verbatim>\<open>err\<close> argument
  (\<open>None\<close> for \<^verbatim>\<open>null\<close>), and the startup handler resumed by it (step E up to
  \<^verbatim>\<open>await startListmonk(pgPort)\<close>).
\<close>

definition install_done :: "env \<Rightarrow> string option \<Rightarrow> app_state \<Rightarrow> app_state" where
  "install_done e err st =
     (case stage st of
        RunningMigrations pgPort \<Rightarrow>
          (case err of
             Some msg \<Rightarrow> startup_failed (InstallError msg) st
           | None \<Rightarrow>
               resume_after_lm
                 ((startListmonk (lm_start_throws e) pgPort st)
                    \<lparr>stage := AwaitingApplicationReady\<rparr>))
      | _ \<Rightarrow> st)"

text \<open>
  Everything the event loop can deliver to the program. An event of a child process
  reaches handlers only when that process has been spawned.
\<close>

datatype event =
    AppReady
  | PgEvent proc_event
  | InstallDone "string option"
  | LmEvent proc_event
  | WindowAllClosed
  | BeforeQuit

fun step :: "env \<Rightarrow> app_state \<Rightarrow> event \<Rightarrow> app_state" where
  "step e st AppReady = (if stage st = Idle then whenReady e st else st)"
| "step e st (PgEvent ev) =
     (if pgProcess st = None then st else resume_after_pg (pg_event ev st))"
| "step e st (InstallDone err) = install_done e err st"
| "step e st (LmEvent ev) =
     (if listmonkProcess st = None then st else resume_after_lm (lm_event ev st))"
| "step e st WindowAllClosed = app_quit st"
| "step e st BeforeQuit = before_quit st"

fun run :: "env \<Rightarrow> app_state \<Rightarrow> event list \<Rightarrow> app_state" where
  "run e st [] = st"
| "run e st (ev # evs) = run e (step e st ev) evs"

section \<open>Shutdown coordinator\<close>

text \<open>
  A call of \<^verbatim>\<open>kill\<close> on a handle: \<^verbatim>\<open>h.kill('SIGTERM')\<close> is \<open>Kill h (Some SIGTERM)\<close>,
  \<^verbatim>\<open>h.kill()\<close> is \<open>Kill h None\<close>. Whether a call throws is the environment's answer
  \<open>throws\<close>.
\<close>

datatype signal = SIGTERM

datatype kill_call = Kill role "signal option"

text \<open>
  The \<^verbatim>\<open>'will-quit'\<close> handler. The result is the list of \<^verbatim>\<open>kill\<close> calls it made, in
  order, and whether an exception left the handler.
\<close>

definition will_quit :: "(kill_call \<Rightarrow> bool) \<Rightarrow> app_state \<Rightarrow> kill_call list \<times> bool" where
  "will_quit throws st =
     (case (case listmonkProcess st of
              None \<Rightarrow> ([], False)
            | Some h \<Rightarrow>
                (if throws (Kill h (Some SIGTERM)) then
                   ([Kill h (Some SIGTERM), Kill h None], throws (Kill h None))
                 else ([Kill h (Some SIGTERM)], False))) of
        (calls, True) \<Rightarrow> (calls, True)
      | (calls, False) \<Rightarrow>
          (case pgProcess st of
             None \<Rightarrow> (calls, False)
           | Some h \<Rightarrow>
               (if throws (Kill h (Some SIGTERM)) then
                  (calls @ [Kill h (Some SIGTERM), Kill h None], throws (Kill h None))
                else (calls @ [Kill h (Some SIGTERM)], False))))"

text \<open>
  Notions used to state what the \<^verbatim>\<open>'will-quit'\<close> handler does with one handle: the calls
  it makes on it (none for \<^verbatim>\<open>null\<close>; the graceful signal, and \<^verbatim>\<open>kill()\<close> after it when
  the graceful signal threw), and whether the \<^verbatim>\<open>kill()\<close> in the \<^verbatim>\<open>catch\<close> block throws.
\<close>

definition stop_calls :: "(kill_call \<Rightarrow> bool) \<Rightarrow> role option \<Rightarrow> kill_call list" where
  "stop_calls throws handle =
     (case handle of
        None \<Rightarrow> []
      | Some h \<Rightarrow>
          (if throws (Kill h (Some SIGTERM)) then [Kill h (Some SIGTERM), Kill h None]
           else [Kill h (Some SIGTERM)]))"

definition fallback_throws :: "(kill_call \<Rightarrow> bool) \<Rightarrow> role option \<Rightarrow> bool" where
  "fallback_throws throws handle =
     (case handle of
        None \<Rightarrow> False
      | Some h \<Rightarrow> throws (Kill h (Some SIGTERM)) \<and> throws (Kill h None))"

section \<open>The port allocator stays in its range\<close>

declare findFreePort_loop.simps [simp del]

lemma findFreePort_loop_result:
  "i \<le> N \<Longrightarrow> findFreePort_loop isFree P N i port probed = (r, pr) \<Longrightarrow>
     (\<exists>p. r = Inr p \<and> port \<le> p \<and> p < port + (N - i) \<and> isFree p \<and>
          (\<forall>q. port \<le> q \<and> q < p \<longrightarrow> \<not> isFree q) \<and> pr = probed @ [port..<Suc p])
   \<or> (r = Inl (NoFreePort P) \<and> (\<forall>q. port \<le> q \<and> q < port + (N - i) \<longrightarrow> \<not> isFree q) \<and>
        pr = probed @ [port..<port + (N - i)])
   \<or> (\<exists>b. r = Inl (BadPort b) \<and> 65536 \<le> b \<and> port \<le> b \<and> b < port + (N - i) \<and>
          (\<forall>q. port \<le> q \<and> q < b \<longrightarrow> \<not> isFree q) \<and> pr = probed @ [port..<b])"
proof (induction isFree P N i port probed rule: findFreePort_loop.induct)
  case (1 isFree P N i port probed)
  show ?case
  proof (cases "i < N")
    case False
    with "1.prems" have "i = N" by simp
    with "1.prems" have "r = Inl (NoFreePort P)" "pr = probed"
      by (simp_all add: findFreePort_loop.simps [of isFree P N N port probed])
    moreover have "\<forall>q. port \<le> q \<and> q < port + (N - i) \<longrightarrow> \<not> isFree q"
      using \<open>i = N\<close> by auto
    moreover have "[port..<port + (N - i)] = []" using \<open>i = N\<close> by simp
    ultimately have "r = Inl (NoFreePort P) \<and>
        (\<forall>q. port \<le> q \<and> q < port + (N - i) \<longrightarrow> \<not> isFree q) \<and>
        pr = probed @ [port..<port + (N - i)]"
      by simp
    then show ?thesis by blast
  next
    case lt: True
    show ?thesis
    proof (cases "65536 \<le> port")
      case True
      with lt "1.prems" have res: "r = Inl (BadPort port)" "pr = probed"
        by (simp_all add: findFreePort_loop.simps [of isFree P N i port probed])
      have "port < port + (N - i)" using lt by arith
      moreover have "\<forall>q. port \<le> q \<and> q < port \<longrightarrow> \<not> isFree q" by arith
      moreover have "pr = probed @ [port..<port]" using res(2) by simp
      ultimately have "r = Inl (BadPort port) \<and> 65536 \<le> port \<and> port \<le> port \<and>
          port < port + (N - i) \<and> (\<forall>q. port \<le> q \<and> q < port \<longrightarrow> \<not> isFree q) \<and>
          pr = probed @ [port..<port]"
        using res(1) True by simp
      then show ?thesis by blast
    next
      case valid: False
      show ?thesis
      proof (cases "isFree port")
        case True
        with lt valid "1.prems" have res: "r = Inr port" "pr = probed @ [port]"
          by (simp_all add: findFreePort_loop.simps [of isFree P N i port probed])
        have "port < port + (N - i)" using lt by arith
        moreover have "\<forall>q. port \<le> q \<and> q < port \<longrightarrow> \<not> isFree q" by arith
        moreover have "pr = probed @ [port..<Suc port]" using res(2) by simp
        ultimately have "r = Inr port \<and> port \<le> port \<and> port < port + (N - i) \<and> isFree port \<and>
            (\<forall>q. port \<le> q \<and> q < port \<longrightarrow> \<not> isFree q) \<and> pr = probed @ [port..<Suc port]"
          using res(1) True by simp
        then show ?thesis by blast
      next
        case False
        with lt valid "1.prems" have rec:
          "findFreePort_loop isFree P N (Suc i) (Suc port) (probed @ [port]) = (r, pr)"
          by (simp add: findFreePort_loop.simps [of isFree P N i port probed])
        from lt have le: "Suc i \<le> N" by simp
        have eq: "Suc port + (N - Suc i) = port + (N - i)" using lt by arith
        have ext: "\<not> isFree q" if "\<forall>q. Suc port \<le> q \<and> q < m \<longrightarrow> \<not> isFree q" "port \<le> q" "q < m"
          for q m
        proof -
          from that(2) have "q = port \<or> Suc port \<le> q" by arith
          with False that(1,3) show ?thesis by blast
        qed
        have cons: "probed @ [port..<m] = (probed @ [port]) @ [Suc port..<m]" if "port < m" for m
          using that by (simp add: upt_conv_Cons)
        from "1.IH" [OF lt valid False le rec]
        consider
          (found) p where "r = Inr p" "Suc port \<le> p" "p < Suc port + (N - Suc i)" "isFree p"
            "\<forall>q. Suc port \<le> q \<and> q < p \<longrightarrow> \<not> isFree q" "pr = (probed @ [port]) @ [Suc port..<Suc p]"
        | (exhausted) "r = Inl (NoFreePort P)"
            "\<forall>q. Suc port \<le> q \<and> q < Suc port + (N - Suc i) \<longrightarrow> \<not> isFree q"
            "pr = (probed @ [port]) @ [Suc port..<Suc port + (N - Suc i)]"
        | (bad) b where "r = Inl (BadPort b)" "65536 \<le> b" "Suc port \<le> b" "b < Suc port + (N - Suc i)"
            "\<forall>q. Suc port \<le> q \<and> q < b \<longrightarrow> \<not> isFree q" "pr = (probed @ [port]) @ [Suc port..<b]"
          by blast
        then show ?thesis
        proof cases
          case found
          have below: "\<forall>q. port \<le> q \<and> q < p \<longrightarrow> \<not> isFree q"
            using ext [OF found(5)] by blast
          have "port < Suc p" using found(2) by arith
          then have "probed @ [port..<Suc p] = (probed @ [port]) @ [Suc port..<Suc p]"
            by (rule cons)
          with found(6) have "pr = probed @ [port..<Suc p]" by (simp only:)
          moreover have "port \<le> p" using found(2) by arith
          moreover have "p < port + (N - i)" using found(3) eq by simp
          ultimately have "r = Inr p \<and> port \<le> p \<and> p < port + (N - i) \<and> isFree p \<and>
              (\<forall>q. port \<le> q \<and> q < p \<longrightarrow> \<not> isFree q) \<and> pr = probed @ [port..<Suc p]"
            using found(1,4) below by blast
          then show ?thesis by blast
        next
          case exhausted
          have none: "\<forall>q. port \<le> q \<and> q < port + (N - i) \<longrightarrow> \<not> isFree q"
          proof (intro allI impI)
            fix q assume "port \<le> q \<and> q < port + (N - i)"
            then have "port \<le> q" "q < Suc port + (N - Suc i)" using lt by arith+
            from ext [OF exhausted(2) this] show "\<not> isFree q" .
          qed
          have "port < port + (N - i)" using lt by arith
          then have c: "probed @ [port..<port + (N - i)]
              = (probed @ [port]) @ [Suc port..<port + (N - i)]"
            by (rule cons)
          from exhausted(3) have "pr = (probed @ [port]) @ [Suc port..<port + (N - i)]"
            by (simp only: eq)
          with c have "pr = probed @ [port..<port + (N - i)]" by (simp only:)
          with exhausted(1) none show ?thesis by blast
        next
          case bad
          have below: "\<forall>q. port \<le> q \<and> q < b \<longrightarrow> \<not> isFree q"
            using ext [OF bad(5)] by blast
          have "port < b" using bad(3) by arith
          then have "probed @ [port..<b] = (probed @ [port]) @ [Suc port..<b]"
            by (rule cons)
          with bad(6) have "pr = probed @ [port..<b]" by (simp only:)
          moreover have "port \<le> b" using bad(3) by arith
          moreover have "b < port + (N - i)" using bad(4) eq by simp
          ultimately have "r = Inl (BadPort b) \<and> 65536 \<le> b \<and> port \<le> b \<and> b < port + (N - i) \<and>
              (\<forall>q. port \<le> q \<and> q < b \<longrightarrow> \<not> isFree q) \<and> pr = probed @ [port..<b]"
            using bad(1,2) below by blast
          then show ?thesis by blast
        qed
      qed
    qed
  qed
qed

text \<open>
  Claim C4, as the code has it. When every candidate is a port number
  (\<open>P + N \<le> 65536\<close>), the port allocator either returns a port \<open>p\<close> with
  \<open>P \<le> p < P + N\<close> whose probe succeeded while every candidate below it in the range
  failed its probe (the probes made are exactly \<open>P, ..., p\<close>), or fails with the
  port-exhaustion error after exactly \<open>N\<close> failed probes (of \<open>P, ..., P + N - 1\<close>).
  For all \<open>P\<close> and \<open>N\<close>, no candidate outside \<open>[P, P + N)\<close> is probed or returned, and a
  returned port passed its probe. The third outcome is the \<^verbatim>\<open>RangeError\<close> of \<^verbatim>\<open>listen\<close>:
  it is thrown at the first candidate \<open>b\<close> of the range that is not a port number,
  after the probes of \<open>P, ..., b - 1\<close> have all failed.
\<close>

theorem findFreePort_spec:
  assumes "findFreePort isFree P N = (r, probed)"
  shows "(P + N \<le> 65536 \<longrightarrow>
            (\<exists>p. r = Inr p \<and> P \<le> p \<and> p < P + N \<and> isFree p \<and>
                 (\<forall>q. P \<le> q \<and> q < p \<longrightarrow> \<not> isFree q) \<and> probed = [P..<Suc p])
          \<or> (r = Inl (NoFreePort P) \<and> length probed = N \<and> probed = [P..<P + N] \<and>
              (\<forall>q \<in> set probed. \<not> isFree q))) \<and>
         set probed \<subseteq> {P..<P + N} \<and>
         (\<forall>p. r = Inr p \<longrightarrow> P \<le> p \<and> p < P + N \<and> isFree p) \<and>
         (\<forall>b. r = Inl (BadPort b) \<longrightarrow>
            65536 \<le> b \<and> b < P + N \<and> probed = [P..<b] \<and> (\<forall>q. P \<le> q \<and> q < b \<longrightarrow> \<not> isFree q))"
proof -
  from assms have loop: "findFreePort_loop isFree P N 0 P [] = (r, probed)"
    by (simp add: findFreePort_def)
  have "0 \<le> N" by simp
  from findFreePort_loop_result [OF this loop]
  consider
    (found) p where "r = Inr p" "P \<le> p" "p < P + N" "isFree p"
      "\<forall>q. P \<le> q \<and> q < p \<longrightarrow> \<not> isFree q" "probed = [P..<Suc p]"
  | (exhausted) "r = Inl (NoFreePort P)" "\<forall>q. P \<le> q \<and> q < P + N \<longrightarrow> \<not> isFree q"
      "probed = [P..<P + N]"
  | (bad) b where "r = Inl (BadPort b)" "65536 \<le> b" "P \<le> b" "b < P + N"
      "\<forall>q. P \<le> q \<and> q < b \<longrightarrow> \<not> isFree q" "probed = [P..<b]"
    by auto
  then show ?thesis
  proof cases
    case found
    from found(3,6) have "set probed \<subseteq> {P..<P + N}" by auto
    with found show ?thesis by blast
  next
    case exhausted
    then have "length probed = N" "set probed \<subseteq> {P..<P + N}" "\<forall>q \<in> set probed. \<not> isFree q"
      by auto
    with exhausted show ?thesis by blast
  next
    case bad
    from bad(4,6) have sub: "set probed \<subseteq> {P..<P + N}" by auto
    from bad(2,4) have "\<not> P + N \<le> 65536" by arith
    with bad sub show ?thesis by blast
  qed
qed

theorem findFreePort_spec_witness:
  "(5::nat) + 4 \<le> 65536 \<and>
   findFreePort (\<lambda>p. p = 7) 5 4 = (Inr 7, [5, 6, 7]) \<and>
   (5::nat) + 2 \<le> 65536 \<and>
   findFreePort (\<lambda>p. False) 5 2 = (Inl (NoFreePort 5), [5, 6]) \<and>
   set [5, 6, 7 :: nat] \<subseteq> {5..<5 + 4} \<and> set [5, 6 :: nat] \<subseteq> {5..<5 + 2}"
proof -
  have a: "findFreePort (\<lambda>p. p = 7) 5 4 = (Inr 7, [5, 6, 7])"
    by (simp add: findFreePort_def findFreePort_loop.simps)
  have b: "findFreePort (\<lambda>p. False) 5 2 = (Inl (NoFreePort 5), [5, 6])"
    by (simp add: findFreePort_def findFreePort_loop.simps)
  from findFreePort_spec [OF a] have "set [5, 6, 7 :: nat] \<subseteq> {5..<5 + 4}" by blast
  moreover from findFreePort_spec [OF b] have "set [5, 6 :: nat] \<subseteq> {5..<5 + 2}" by blast
  ultimately show ?thesis using a b by simp
qed

text \<open>
  Claim C4 as stated fails: from start port 65535 with two attempts and port 65535
  busy, the allocator neither returns a port nor fails with the port-exhaustion
  error. After one failed probe, \<^verbatim>\<open>listen(65536)\<close> throws and the allocator fails with
  that \<^verbatim>\<open>RangeError\<close>.
\<close>

theorem findFreePort_bad_port:
  "findFreePort (\<lambda>p. False) 65535 2 = (Inl (BadPort 65536), [65535])"
  by (simp add: findFreePort_def findFreePort_loop.simps)

section \<open>Promises\<close>

lemma resolve_simps [simp]:
  "resolve Pending v = Resolved v" "resolve (Resolved w) v = Resolved w"
  "resolve (Rejected e) v = Rejected e"
  by (simp_all add: resolve_def)

lemma reject_simps [simp]:
  "reject Pending e = Rejected e" "reject (Resolved w) e = Resolved w"
  "reject (Rejected e') e = Rejected e'"
  by (simp_all add: reject_def)

lemma await_simps [simp]:
  "await Pending = Hang" "await (Resolved v) = Returned v" "await (Rejected e) = Threw e"
  by (simp_all add: await_def)

lemma await_Returned_iff: "await p = Returned v \<longleftrightarrow> p = Resolved v"
  by (cases p) simp_all

section \<open>The storage initializer\<close>

lemma initdb_on_event_frame:
  "dataDir (fst (initdb_on_event w ev s)) = dataDir (fst s) \<and>
   pidFile (fst (initdb_on_event w ev s)) = pidFile (fst s)"
  by (cases ev; cases s) simp_all

lemma initdb_run_frame:
  "dataDir (fst (initdb_run w evs s)) = dataDir (fst s) \<and>
   pidFile (fst (initdb_run w evs s)) = pidFile (fst s)"
  by (induction evs arbitrary: s) (simp_all add: initdb_on_event_frame)

lemma initdb_on_event_marker:
  "initMarker (fst (initdb_on_event w ev s)) \<longleftrightarrow>
     initMarker (fst s) \<or> (w \<and> ev = CloseEvent (Some 0))"
  by (cases ev; cases s) auto

lemma initdb_run_marker:
  "initMarker (fst (initdb_run w evs s)) \<longleftrightarrow>
     initMarker (fst s) \<or> (w \<and> CloseEvent (Some 0) \<in> set evs)"
  by (induction evs arbitrary: s) (auto simp add: initdb_on_event_marker)

lemma initdb_on_event_resolved:
  "(snd s = Resolved () \<longrightarrow> initMarker (fst s)) \<Longrightarrow>
   snd (initdb_on_event w ev s) = Resolved () \<Longrightarrow> initMarker (fst (initdb_on_event w ev s))"
  by (cases ev; cases s; cases "snd s") (auto split: if_splits)

lemma initdb_run_resolved:
  "(snd s = Resolved () \<longrightarrow> initMarker (fst s)) \<Longrightarrow>
   snd (initdb_run w evs s) = Resolved () \<Longrightarrow> initMarker (fst (initdb_run w evs s))"
proof (induction evs arbitrary: s)
  case Nil
  then show ?case by simp
next
  case (Cons ev evs)
  have "snd (initdb_on_event w ev s) = Resolved () \<longrightarrow>
        initMarker (fst (initdb_on_event w ev s))"
    using Cons.prems(1) initdb_on_event_resolved by blast
  from Cons.IH [OF this] Cons.prems(2) show ?case by simp
qed

lemma initdb_on_event_rejected:
  "\<exists>fs'. initdb_on_event w ev (fs, Rejected e) = (fs', Rejected e)"
  by (cases ev) simp_all

lemma initdb_run_rejected:
  "snd (initdb_run w evs (fs, Rejected e)) = Rejected e"
proof (induction evs arbitrary: fs)
  case Nil
  show ?case by simp
next
  case (Cons ev evs)
  obtain fs' where "initdb_on_event w ev (fs, Rejected e) = (fs', Rejected e)"
    using initdb_on_event_rejected by blast
  with Cons.IH [of fs'] show ?case by simp
qed

lemma initdb_run_fails:
  "CloseEvent (Some 0) \<notin> set evs \<Longrightarrow> \<exists>ev \<in> set evs. settling ev \<Longrightarrow>
   init_failure (await (snd (initdb_run w evs (fs, Pending))))"
proof (induction evs arbitrary: fs)
  case Nil
  then show ?case by simp
next
  case (Cons ev evs)
  show ?case
  proof (cases ev)
    case (StdoutData d)
    with Cons show ?thesis by (simp add: settling_def)
  next
    case (StderrData d)
    with Cons show ?thesis by (simp add: settling_def)
  next
    case (ErrorEvent err)
    then show ?thesis by (simp add: initdb_run_rejected init_failure_def)
  next
    case (CloseEvent code)
    with Cons.prems(1) have "code \<noteq> Some 0" by auto
    with CloseEvent show ?thesis by (simp add: initdb_run_rejected init_failure_def)
  qed
qed

lemma cleanLeftoverLockFile_frame [simp]:
  "dataDir (cleanLeftoverLockFile u fs) = dataDir fs"
  "initMarker (cleanLeftoverLockFile u fs) = initMarker fs"
  by (simp_all add: cleanLeftoverLockFile_def)

lemma dataDir_update_idem: "dataDir fs \<Longrightarrow> fs\<lparr>dataDir := True\<rparr> = fs"
  by (cases fs) simp

lemma initDbIfNeeded_unfold:
  assumes "dataDir fs \<or> mkdir_ok env"
  shows "initDbIfNeeded env fs =
     (if initMarker fs then
        (cleanLeftoverLockFile (unlink_ok env) (fs\<lparr>dataDir := True\<rparr>), 0, Returned ())
      else
        (case initdb_spawn_throws env of
           Some msg \<Rightarrow>
             (cleanLeftoverLockFile (unlink_ok env) (fs\<lparr>dataDir := True\<rparr>), 1,
              Threw (ExecutorError msg))
         | None \<Rightarrow>
             (fst (initdb_run (write_ok env) (initdb_events env)
                    (cleanLeftoverLockFile (unlink_ok env) (fs\<lparr>dataDir := True\<rparr>), Pending)),
              1,
              await (snd (initdb_run (write_ok env) (initdb_events env)
                    (cleanLeftoverLockFile (unlink_ok env) (fs\<lparr>dataDir := True\<rparr>), Pending))))))"
  using assms
  by (auto simp add: initDbIfNeeded_def Let_def split: prod.splits option.splits)

lemma initDbIfNeeded_mkdir_fails:
  "\<not> dataDir fs \<Longrightarrow> \<not> mkdir_ok env \<Longrightarrow> initDbIfNeeded env fs = (fs, 0, Threw MkdirError)"
  by (simp add: initDbIfNeeded_def)

lemma initDbIfNeeded_marked:
  "dataDir fs \<Longrightarrow> initMarker fs \<Longrightarrow>
   initDbIfNeeded env fs = (cleanLeftoverLockFile (unlink_ok env) fs, 0, Returned ())"
  by (simp add: initDbIfNeeded_unfold dataDir_update_idem)

lemma initDbIfNeeded_Returned:
  assumes "initDbIfNeeded env fs = (fs', n, Returned ())"
  shows "dataDir fs' \<and> initMarker fs' \<and> n \<le> 1"
proof (cases "dataDir fs \<or> mkdir_ok env")
  case False
  with assms show ?thesis by (simp add: initDbIfNeeded_mkdir_fails)
next
  case ok: True
  define fs1 where "fs1 = cleanLeftoverLockFile (unlink_ok env) (fs\<lparr>dataDir := True\<rparr>)"
  have d1: "dataDir fs1" by (simp add: fs1_def)
  note unf = initDbIfNeeded_unfold [OF ok, folded fs1_def]
  show ?thesis
  proof (cases "initMarker fs")
    case True
    with assms unf have "fs' = fs1" "n = 0" by simp_all
    moreover have "initMarker fs1" using True by (simp add: fs1_def)
    ultimately show ?thesis using d1 by simp
  next
    case False
    show ?thesis
    proof (cases "initdb_spawn_throws env")
      case (Some msg)
      with False assms unf show ?thesis by simp
    next
      case None
      define s where "s = initdb_run (write_ok env) (initdb_events env) (fs1, Pending)"
      from False None assms unf have eq: "fs' = fst s" "n = 1" "await (snd s) = Returned ()"
        by (simp_all add: s_def)
      from eq(3) have "snd s = Resolved ()" by (simp add: await_Returned_iff)
      then have "initMarker (fst s)"
        unfolding s_def by (intro initdb_run_resolved) simp_all
      moreover have "dataDir (fst s)" unfolding s_def using d1 by (simp add: initdb_run_frame)
      ultimately show ?thesis using eq by simp
    qed
  qed
qed

text \<open>
  Claim C5. Running the storage initializer twice in sequence: if the first run
  completed successfully, from any storage state and whatever the environment did,
  then the marker is present afterwards, the second run does not spawn the bootstrap
  command and completes successfully as well, so the two runs together spawn it at
  most once (\<open>n1\<close> and \<open>n2\<close> count the spawns of initdb in each run).
\<close>

theorem initDbIfNeeded_twice:
  assumes "initDbIfNeeded env1 fs = (fs1, n1, Returned ())"
      and "initDbIfNeeded env2 fs1 = (fs2, n2, out2)"
  shows "n2 = 0 \<and> out2 = Returned () \<and> n1 + n2 \<le> 1 \<and> initMarker fs1 \<and> initMarker fs2"
proof -
  from initDbIfNeeded_Returned [OF assms(1)]
  have f: "dataDir fs1" "initMarker fs1" "n1 \<le> 1" by simp_all
  from assms(2) initDbIfNeeded_marked [OF f(1) f(2), of env2]
  have "fs2 = cleanLeftoverLockFile (unlink_ok env2) fs1" "n2 = 0" "out2 = Returned ()"
    by simp_all
  with f show ?thesis by simp
qed

theorem initDbIfNeeded_twice_witness:
  "initDbIfNeeded \<lparr>mkdir_ok = True, unlink_ok = True, write_ok = True,
                    initdb_spawn_throws = None,
                    initdb_events = [StdoutData ''ok'', CloseEvent (Some 0)]\<rparr>
                  \<lparr>dataDir = False, pidFile = False, initMarker = False\<rparr>
     = (\<lparr>dataDir = True, pidFile = False, initMarker = True\<rparr>, 1, Returned ()) \<and>
   initDbIfNeeded \<lparr>mkdir_ok = False, unlink_ok = False, write_ok = False,
                    initdb_spawn_throws = None, initdb_events = [CloseEvent (Some 1)]\<rparr>
                  \<lparr>dataDir = True, pidFile = False, initMarker = True\<rparr>
     = (\<lparr>dataDir = True, pidFile = False, initMarker = True\<rparr>, 0, Returned ()) \<and>
   (1::nat) + 0 \<le> 1"
proof -
  have a: "initDbIfNeeded \<lparr>mkdir_ok = True, unlink_ok = True, write_ok = True,
                    initdb_spawn_throws = None,
                    initdb_events = [StdoutData ''ok'', CloseEvent (Some 0)]\<rparr>
                  \<lparr>dataDir = False, pidFile = False, initMarker = False\<rparr>
     = (\<lparr>dataDir = True, pidFile = False, initMarker = True\<rparr>, 1, Returned ())"
    by (simp add: initDbIfNeeded_def cleanLeftoverLockFile_def)
  have b: "initDbIfNeeded \<lparr>mkdir_ok = False, unlink_ok = False, write_ok = False,
                    initdb_spawn_throws = None, initdb_events = [CloseEvent (Some 1)]\<rparr>
                  \<lparr>dataDir = True, pidFile = False, initMarker = True\<rparr>
     = (\<lparr>dataDir = True, pidFile = False, initMarker = True\<rparr>, 0, Returned ())"
    by (simp add: initDbIfNeeded_def cleanLeftoverLockFile_def)
  from initDbIfNeeded_twice [OF a b] a b show ?thesis by simp
qed

text \<open>
  Claim C6, as the code has it. Starting without the marker, the storage initializer
  leaves the marker present exactly when it spawned the bootstrap command, that
  command closed with exit code 0, and the write of the marker succeeded. When the
  bootstrap was called for and failed (\<^verbatim>\<open>spawn\<close> threw, or the process never closed
  with code 0 and its \<^verbatim>\<open>'error'\<close> or \<^verbatim>\<open>'close'\<close> event arrived: a spawn failure or a
  nonzero exit), the initializer fails with an initialization error, the marker
  stays absent, and the next run calls for the bootstrap command again, whatever its
  environment.
\<close>

theorem initDb_marker_iff_exit_zero:
  assumes "\<not> initMarker fs" and "initDbIfNeeded env fs = (fs', n, out)"
  shows "(initMarker fs' \<longleftrightarrow>
            n = 1 \<and> initdb_spawn_throws env = None \<and> write_ok env \<and>
            CloseEvent (Some 0) \<in> set (initdb_events env)) \<and>
         (n = 1 \<and>
            (initdb_spawn_throws env \<noteq> None \<or>
             (CloseEvent (Some 0) \<notin> set (initdb_events env) \<and>
              (\<exists>ev \<in> set (initdb_events env). settling ev)))
          \<longrightarrow> init_failure out \<and> \<not> initMarker fs' \<and>
              (\<forall>env2. fst (snd (initDbIfNeeded env2 fs')) = 1))"
proof (cases "dataDir fs \<or> mkdir_ok env")
  case False
  with assms have "fs' = fs" "n = 0" by (simp_all add: initDbIfNeeded_mkdir_fails)
  with assms(1) show ?thesis by simp
next
  case ok: True
  define fs1 where "fs1 = cleanLeftoverLockFile (unlink_ok env) (fs\<lparr>dataDir := True\<rparr>)"
  have fs1: "dataDir fs1" "\<not> initMarker fs1" using assms(1) by (simp_all add: fs1_def)
  note unf = initDbIfNeeded_unfold [OF ok, folded fs1_def]
  have again: "fst (snd (initDbIfNeeded env2 fs')) = 1"
    if "dataDir fs'" "\<not> initMarker fs'" for env2
    using that by (simp add: initDbIfNeeded_unfold split: option.splits)
  show ?thesis
  proof (cases "initdb_spawn_throws env")
    case (Some msg)
    with assms unf have eq: "fs' = fs1" "n = 1" "out = Threw (ExecutorError msg)"
      by simp_all
    have "init_failure out" by (simp add: eq(3) init_failure_def)
    moreover have "\<not> initMarker fs'" "dataDir fs'" using fs1 by (simp_all add: eq(1))
    ultimately show ?thesis using Some again by simp
  next
    case None
    define s where "s = initdb_run (write_ok env) (initdb_events env) (fs1, Pending)"
    from assms None unf have eq: "fs' = fst s" "n = 1" "out = await (snd s)"
      by (simp_all add: s_def)
    have marker: "initMarker fs' \<longleftrightarrow>
        write_ok env \<and> CloseEvent (Some 0) \<in> set (initdb_events env)"
      using fs1(2) by (simp add: eq(1) s_def initdb_run_marker)
    have dir: "dataDir fs'" using fs1(1) by (simp add: eq(1) s_def initdb_run_frame)
    have fails: "init_failure out"
      if "CloseEvent (Some 0) \<notin> set (initdb_events env)"
         "\<exists>ev \<in> set (initdb_events env). settling ev"
      unfolding eq(3) s_def using that by (rule initdb_run_fails)
    from marker eq(2) None again [OF dir] fails show ?thesis by blast
  qed
qed

theorem initDb_marker_iff_exit_zero_witness:
  "initDbIfNeeded \<lparr>mkdir_ok = True, unlink_ok = True, write_ok = True,
                    initdb_spawn_throws = None,
                    initdb_events = [ErrorEvent ''ENOENT'', CloseEvent (Some (- 2))]\<rparr>
                  \<lparr>dataDir = False, pidFile = False, initMarker = False\<rparr>
     = (\<lparr>dataDir = True, pidFile = False, initMarker = False\<rparr>, 1, Threw (SpawnError ''ENOENT'')) \<and>
   init_failure (Threw (SpawnError ''ENOENT'')) \<and>
   fst (snd (initDbIfNeeded \<lparr>mkdir_ok = True, unlink_ok = True, write_ok = True,
                    initdb_spawn_throws = None, initdb_events = [CloseEvent (Some 0)]\<rparr>
                  \<lparr>dataDir = True, pidFile = False, initMarker = False\<rparr>)) = 1 \<and>
   initDbIfNeeded \<lparr>mkdir_ok = True, unlink_ok = True, write_ok = True,
                    initdb_spawn_throws = None,
                    initdb_events = [StderrData ''no space'', CloseEvent (Some 1)]\<rparr>
                  \<lparr>dataDir = True, pidFile = True, initMarker = False\<rparr>
     = (\<lparr>dataDir = True, pidFile = False, initMarker = False\<rparr>, 1, Threw (InitdbExited (Some 1))) \<and>
   init_failure (Threw (InitdbExited (Some 1))) \<and>
   initDbIfNeeded \<lparr>mkdir_ok = True, unlink_ok = True, write_ok = True,
                    initdb_spawn_throws = None, initdb_events = [CloseEvent (Some 0)]\<rparr>
                  \<lparr>dataDir = True, pidFile = False, initMarker = False\<rparr>
     = (\<lparr>dataDir = True, pidFile = False, initMarker = True\<rparr>, 1, Returned ())"
proof -
  have m: "\<not> initMarker \<lparr>dataDir = False, pidFile = False, initMarker = False\<rparr>" by simp
  have a: "initDbIfNeeded \<lparr>mkdir_ok = True, unlink_ok = True, write_ok = True,
                    initdb_spawn_throws = None,
                    initdb_events = [ErrorEvent ''ENOENT'', CloseEvent (Some (- 2))]\<rparr>
                  \<lparr>dataDir = False, pidFile = False, initMarker = False\<rparr>
     = (\<lparr>dataDir = True, pidFile = False, initMarker = False\<rparr>, 1, Threw (SpawnError ''ENOENT''))"
    by (simp add: initDbIfNeeded_def cleanLeftoverLockFile_def)
  have b: "initDbIfNeeded \<lparr>mkdir_ok = True, unlink_ok = True, write_ok = True,
                    initdb_spawn_throws = None,
                    initdb_events = [StderrData ''no space'', CloseEvent (Some 1)]\<rparr>
                  \<lparr>dataDir = True, pidFile = True, initMarker = False\<rparr>
     = (\<lparr>dataDir = True, pidFile = False, initMarker = False\<rparr>, 1, Threw (InitdbExited (Some 1)))"
    by (simp add: initDbIfNeeded_def cleanLeftoverLockFile_def)
  have c: "initDbIfNeeded \<lparr>mkdir_ok = True, unlink_ok = True, write_ok = True,
                    initdb_spawn_throws = None, initdb_events = [CloseEvent (Some 0)]\<rparr>
                  \<lparr>dataDir = True, pidFile = False, initMarker = False\<rparr>
     = (\<lparr>dataDir = True, pidFile = False, initMarker = True\<rparr>, 1, Returned ())"
    by (simp add: initDbIfNeeded_def cleanLeftoverLockFile_def)
  from initDb_marker_iff_exit_zero [OF m a] a b c show ?thesis
    by (simp add: settling_def init_failure_def)
qed

text \<open>
  Claim C6 as stated fails: the bootstrap command closes with exit code 0, the write
  of the marker throws, and the marker is absent afterwards; the promise of the
  bootstrap is never settled, so the initializer neither completes nor fails.
\<close>

theorem initDb_marker_write_fails:
  "initDbIfNeeded \<lparr>mkdir_ok = True, unlink_ok = True, write_ok = False,
                    initdb_spawn_throws = None, initdb_events = [CloseEvent (Some 0)]\<rparr>
                  \<lparr>dataDir = False, pidFile = False, initMarker = False\<rparr>
     = (\<lparr>dataDir = True, pidFile = False, initMarker = False\<rparr>, 1, Hang)"
  by (simp add: initDbIfNeeded_def cleanLeftoverLockFile_def)

section \<open>The readiness promise of a supervised process\<close>



















section \<open>Which streams are scanned for readiness\<close>

lemma pg_event_as_stdout: "pg_event (as_stdout ev) st = pg_event ev st"
  by (cases ev) (simp_all add: as_stdout_def)

lemma lm_event_stderr: "\<not> not_stderr ev \<Longrightarrow> lm_event ev st = st"
  by (cases ev) (simp_all add: not_stderr_def)

text \<open>
  Claim C3, as the code has it. The database supervisor scans both streams alike: a
  chunk of either stream that includes the marker resolves the readiness promise,
  and delivering every standard-error chunk on standard output instead changes
  nothing. The application supervisor scans standard output only, with the two
  patterns in order: its standard-error chunks are logged and otherwise ignored, so
  removing them from the stream changes nothing, and a readiness line among them
  does not resolve the readiness promise.
\<close>

theorem stderr_scanned_for_database_only:
  "pgReady (pg_event (StdoutData txt) st) =
     (if str_includes txt pg_ready_marker then resolve (pgReady st) () else pgReady st) \<and>
   pgReady (pg_event (StderrData txt) st) =
     (if str_includes txt pg_ready_marker then resolve (pgReady st) () else pgReady st) \<and>
   lmReady (lm_event (StdoutData txt) st) =
     (case lm_match txt of None \<Rightarrow> lmReady st | Some ds \<Rightarrow> resolve (lmReady st) (Some ds)) \<and>
   lm_event (StderrData txt) st = st \<and>
   pg_run (map as_stdout evs) st = pg_run evs st \<and>
   lm_run (filter not_stderr evs) st = lm_run evs st"
proof -
  have "pgReady (checkLine txt st) =
      (if str_includes txt pg_ready_marker then resolve (pgReady st) () else pgReady st)"
    by (simp add: checkLine_def)
  moreover have "lmReady (lm_on_stdout txt st) =
      (case lm_match txt of None \<Rightarrow> lmReady st | Some ds \<Rightarrow> resolve (lmReady st) (Some ds))"
    by (simp add: lm_on_stdout_def split: option.splits)
  moreover have "pg_run (map as_stdout evs) st = pg_run evs st"
    by (induction evs arbitrary: st) (simp_all add: pg_event_as_stdout)
  moreover have "lm_run (filter not_stderr evs) st = lm_run evs st"
    by (induction evs arbitrary: st) (simp_all add: lm_event_stderr)
  ultimately show ?thesis by simp
qed

text \<open>
  Claim C3 as stated fails for the application process: the same readiness line
  resolves the promise when it arrives on standard output and leaves it pending
  when it arrives on standard error.
\<close>

theorem lm_stderr_readiness_line_ignored:
  "lmReady (lm_run [StderrData ''http server started on 127.0.0.1:8042'']
              (startListmonk None 54321 (initial_state \<lparr>dataDir = True, pidFile = False, initMarker = True\<rparr>)))
     = Pending \<and>
   lmReady (lm_run [StdoutData ''http server started on 127.0.0.1:8042'']
              (startListmonk None 54321 (initial_state \<lparr>dataDir = True, pidFile = False, initMarker = True\<rparr>)))
     = Resolved (Some ''8042'')"
  by (simp add: startListmonk_def initial_state_def lm_on_stdout_def lm_match_def
      lm_pattern1_def lm_pattern2_def match_here_def is_digit_def)

section \<open>Readiness is signalled once\<close>














section \<open>Crash notifications\<close>

text \<open>
  Claim C8. When the exit event of a supervised process fires: if the
  intentional-shutdown flag is set, no error box is shown, whatever the exit code; if
  the flag is unset and the exit code is not 0, exactly one error box is added, and
  it names the database or the application according to the process that exited.
  The flag is what the \<^verbatim>\<open>'before-quit'\<close> handler sets.
\<close>

theorem crash_notification:
  "(isQuitting st \<longrightarrow>
      errorBoxes (pg_event (CloseEvent code) st) = errorBoxes st \<and>
      errorBoxes (lm_event (CloseEvent code) st) = errorBoxes st) \<and>
   (\<not> isQuitting st \<and> code \<noteq> Some 0 \<longrightarrow>
      errorBoxes (pg_event (CloseEvent code) st) =
        errorBoxes st @ [(''Postgres Error'', Text ''Postgres crashed unexpectedly.'')] \<and>
      errorBoxes (lm_event (CloseEvent code) st) =
        errorBoxes st @ [(''Listmonk Stopped'', Text ''Listmonk crashed unexpectedly.'')]) \<and>
   isQuitting (before_quit st)"
  by (simp add: pg_on_close_def lm_on_close_def showErrorBox_def before_quit_def)

theorem crash_notification_witness:
  "isQuitting (before_quit (startPostgres None 54321 (initial_state \<lparr>dataDir = True, pidFile = False, initMarker = True\<rparr>))) \<and>
   errorBoxes (pg_event (CloseEvent (Some 1))
     (before_quit (startPostgres None 54321 (initial_state \<lparr>dataDir = True, pidFile = False, initMarker = True\<rparr>)))) = [] \<and>
   errorBoxes (lm_event (CloseEvent None)
     (before_quit (startPostgres None 54321 (initial_state \<lparr>dataDir = True, pidFile = False, initMarker = True\<rparr>)))) = [] \<and>
   \<not> isQuitting (startPostgres None 54321 (initial_state \<lparr>dataDir = True, pidFile = False, initMarker = True\<rparr>)) \<and>
   Some (1::int) \<noteq> Some 0 \<and>
   errorBoxes (pg_event (CloseEvent (Some 1))
     (startPostgres None 54321 (initial_state \<lparr>dataDir = True, pidFile = False, initMarker = True\<rparr>)))
     = [(''Postgres Error'', Text ''Postgres crashed unexpectedly.'')] \<and>
   errorBoxes (lm_event (CloseEvent (Some 1))
     (startPostgres None 54321 (initial_state \<lparr>dataDir = True, pidFile = False, initMarker = True\<rparr>)))
     = [(''Listmonk Stopped'', Text ''Listmonk crashed unexpectedly.'')]"
proof -
  let ?st = "startPostgres None 54321 (initial_state \<lparr>dataDir = True, pidFile = False, initMarker = True\<rparr>)"
  have q: "isQuitting (before_quit ?st)" by (simp add: before_quit_def)
  have n: "\<not> isQuitting ?st" by (simp add: startPostgres_def initial_state_def)
  have e: "errorBoxes ?st = []" "errorBoxes (before_quit ?st) = []"
    by (simp_all add: startPostgres_def initial_state_def before_quit_def)
  from crash_notification [of "before_quit ?st" "Some 1"] crash_notification [of "before_quit ?st" None]
    crash_notification [of ?st "Some 1"] q n e
  show ?thesis by simp
qed

section \<open>Shutdown\<close>

text \<open>
  Claim C9, as the code has it. The calls of the \<^verbatim>\<open>'will-quit'\<close> handler are those on
  the application handle followed by those on the database handle; on each handle
  the graceful signal comes first, \<^verbatim>\<open>kill()\<close> follows on the same handle exactly when the
  graceful signal threw, and a \<^verbatim>\<open>null\<close> handle gets no call. An exception leaves the
  handler exactly when a \<^verbatim>\<open>kill()\<close> in a \<^verbatim>\<open>catch\<close> block throws (when it is the
  application's, the database handle is not reached); so the handler never raises
  when no \<^verbatim>\<open>kill()\<close> without argument throws.
\<close>

theorem will_quit_spec:
  "fst (will_quit throws st) =
     (if fallback_throws throws (listmonkProcess st) then stop_calls throws (listmonkProcess st)
      else stop_calls throws (listmonkProcess st) @ stop_calls throws (pgProcess st)) \<and>
   (snd (will_quit throws st) \<longleftrightarrow>
      fallback_throws throws (listmonkProcess st) \<or> fallback_throws throws (pgProcess st)) \<and>
   ((\<forall>h. \<not> throws (Kill h None)) \<longrightarrow> \<not> snd (will_quit throws st))"
  by (cases "listmonkProcess st"; cases "pgProcess st")
     (simp_all add: will_quit_def stop_calls_def fallback_throws_def)

theorem will_quit_spec_witness:
  "(\<forall>h. \<not> (Kill Application (Some SIGTERM) = Kill h None)) \<and>
   will_quit (\<lambda>c. c = Kill Application (Some SIGTERM))
     (startListmonk None 54321 (startPostgres None 54321
        (initial_state \<lparr>dataDir = True, pidFile = False, initMarker = True\<rparr>)))
   = ([Kill Application (Some SIGTERM), Kill Application None, Kill Database (Some SIGTERM)], False) \<and>
   will_quit (\<lambda>c. c = Kill Application (Some SIGTERM))
     (startPostgres None 54321 (initial_state \<lparr>dataDir = True, pidFile = False, initMarker = True\<rparr>))
   = ([Kill Database (Some SIGTERM)], False)"
proof -
  let ?thr = "\<lambda>c. c = Kill Application (Some SIGTERM)"
  let ?st = "startListmonk None 54321 (startPostgres None 54321
        (initial_state \<lparr>dataDir = True, pidFile = False, initMarker = True\<rparr>))"
  have h: "\<forall>h. \<not> ?thr (Kill h None)" by simp
  have a: "will_quit ?thr ?st
      = ([Kill Application (Some SIGTERM), Kill Application None, Kill Database (Some SIGTERM)], False)"
    by (simp add: will_quit_def startListmonk_def startPostgres_def initial_state_def)
  have b: "will_quit ?thr
      (startPostgres None 54321 (initial_state \<lparr>dataDir = True, pidFile = False, initMarker = True\<rparr>))
      = ([Kill Database (Some SIGTERM)], False)"
    by (simp add: will_quit_def startPostgres_def initial_state_def)
  from will_quit_spec [of ?thr ?st] h a b show ?thesis by simp
qed

text \<open>
  Claim C9 as stated fails: when every \<^verbatim>\<open>kill\<close> call throws, the exception of the
  application's \<^verbatim>\<open>kill()\<close> in the \<^verbatim>\<open>catch\<close> block leaves the handler, and the database
  handle is never signalled.
\<close>

theorem will_quit_raises:
  "will_quit (\<lambda>c. True)
     (startListmonk None 54321 (startPostgres None 54321
        (initial_state \<lparr>dataDir = True, pidFile = False, initMarker = True\<rparr>)))
   = ([Kill Application (Some SIGTERM), Kill Application None], True)"
  by (simp add: will_quit_def startListmonk_def startPostgres_def initial_state_def)

section \<open>The pipeline as a whole\<close>


















text \<open>
  Claim C2 against the code. The storage is initialized, the database becomes ready,
  the migrations succeed, and the application prints a line that matches neither
  pattern and exits with code 0. The startup handler is still waiting in
  \<^verbatim>\<open>await startListmonk(pgPort)\<close>: no window has been created, no address (the default
  port 9000 or any other) has been reported, and the fallback
  \<^verbatim>\<open>ephemeralPort || '9000'\<close> after the \<^verbatim>\<open>await\<close> is never reached.
\<close>

theorem silent_exit_no_window:
  "run \<lparr>init = \<lparr>mkdir_ok = True, unlink_ok = True, write_ok = True, initdb_spawn_throws = None, initdb_events = [CloseEvent (Some 0)]\<rparr>,
        portIsFree = (\<lambda>p. True),
        pg_start_throws = None, lm_start_throws = None\<rparr>
       (initial_state \<lparr>dataDir = False, pidFile = False, initMarker = False\<rparr>)
       [AppReady,
        PgEvent (StderrData ''LOG:  database system is ready to accept connections''),
        InstallDone None,
        LmEvent (StdoutData ''starting''),
        LmEvent (CloseEvent (Some 0))]
   = \<lparr>pgProcess = Some Database, listmonkProcess = Some Application, isQuitting = False,
      mainWindow = None, errorBoxes = [], pgReady = Resolved (), lmReady = Pending,
      ephemeralPort = None, stage = AwaitingApplicationReady,
      disk = \<lparr>dataDir = True, pidFile = False, initMarker = True\<rparr>\<rparr>"
  by (simp add: initial_state_def whenReady_def initDbIfNeeded_def cleanLeftoverLockFile_def
      findFreePort_def findFreePort_loop.simps startPostgres_def resume_after_pg_def
      checkLine_def pg_ready_marker_def install_done_def startListmonk_def resume_after_lm_def
      lm_on_stdout_def lm_match_def lm_pattern1_def lm_pattern2_def match_here_def is_digit_def
      lm_on_close_def)

end
